theory Spec2Isabelle
  imports Complex_Main "HOL-Library.Word" "HOL-Library.Monad_Syntax"
begin

section \<open>Numbers\<close>

text \<open>
  The TypeScript sources compute with \<open>number\<close>. Finite numbers are modelled as \<^typ>\<open>real\<close>
  (exact arithmetic, no rounding). Where a quotient may have a zero divisor the result is
  modelled as \<^typ>\<open>real option\<close>: \<open>None\<close> stands for a value that is not a finite number
  (JavaScript's \<open>NaN\<close> or an infinity). Values of \<open>Date.now()\<close> are integers
  (milliseconds) and are passed in as arguments.
\<close>

type_synonym js_number = "real option"

definition js_div :: "real \<Rightarrow> real \<Rightarrow> js_number" where
  "js_div a b = (if b = 0 then None else Some (a / b))"

text \<open>\<open>a >= b\<close> on a number that may be \<open>NaN\<close>: every comparison with \<open>NaN\<close> is false.\<close>

definition js_ge :: "js_number \<Rightarrow> real \<Rightarrow> bool" where
  "js_ge a b = (case a of None \<Rightarrow> False | Some v \<Rightarrow> v \<ge> b)"

section \<open>Data model (types)\<close>

datatype WeldingType = MIG | TIG | ELECTRODO

datatype Grade = A | B | C | D | F

text \<open>\<open>{ min: number, max: number }\<close>\<close>

record IdealRange =
  min_val :: real
  max_val :: real

text \<open>\<open>scoring: { angle, distance, speed, smoothness }\<close>: the four weights.\<close>

record Scoring =
  w_angle :: real
  w_distance :: real
  w_speed :: real
  w_smoothness :: real

record WeldingParameters =
  technique :: WeldingType
  idealAngle :: IdealRange
  idealDistance :: IdealRange
  idealSpeed :: IdealRange
  scoring :: Scoring

text \<open>\<open>{ x, y, z }\<close> of an acceleration or a marker position.\<close>

record Vec3 =
  vx :: real
  vy :: real
  vz :: real

record Gyroscope =
  alpha :: real
  beta :: real
  gamma :: real

record SensorData =
  acceleration :: Vec3
  gyroscope :: Gyroscope
  timestamp_s :: int

record Rotation =
  pitch :: real
  yaw :: real
  roll :: real

record ARMarkerData =
  position :: Vec3
  rotation :: Rotation
  marker_size :: real
  marker_confidence :: real
  timestamp_a :: int

record RealTimeMetrics =
  currentAngle :: real
  currentDistance :: real
  currentSpeed :: real
  stabilityScore :: real
  qualityScore :: real
  isInRange :: bool
  timestamp_m :: int

record WeldingSession =
  session_id :: string
  session_technique :: WeldingType
  startTime :: int
  endTime :: "int option"
  duration :: int
  parameters :: WeldingParameters
  sensorData :: "SensorData list"
  markerData :: "ARMarkerData list"
  metrics :: "RealTimeMetrics list"
  finalScore :: js_number
  grade :: Grade

section \<open>Welding calculations (utils/weldingCalculations)\<close>

text \<open>\<open>evaluateAngleAccuracy\<close>\<close>

definition evaluateAngleAccuracy :: "real \<Rightarrow> IdealRange \<Rightarrow> real" where
  "evaluateAngleAccuracy angle idealRange =
     (if angle \<ge> min_val idealRange \<and> angle \<le> max_val idealRange then 100
      else let deviation = min \<bar>angle - min_val idealRange\<bar> \<bar>angle - max_val idealRange\<bar>
           in max 0 (100 - (deviation * 2)))"

text \<open>
  \<open>evaluateDistanceStability\<close>. \<open>xs.reduce((sum, d) => sum + f(d), 0)\<close> is a left fold
  from 0. The two divisions by \<open>previousDistances.length\<close> are only reached when the
  length is not 0.
\<close>

definition evaluateDistanceStability :: "real \<Rightarrow> real list \<Rightarrow> IdealRange \<Rightarrow> real" where
  "evaluateDistanceStability currentDistance' previousDistances idealRange =
     (if currentDistance' < min_val idealRange \<or> currentDistance' > max_val idealRange then 0
      else if length previousDistances = 0 then 100
      else
        let avgDistance =
              foldl (\<lambda>sum d. sum + d) 0 previousDistances / real (length previousDistances);
            variance =
              foldl (\<lambda>sum d. sum + (d - avgDistance) ^ 2) 0 previousDistances
                / real (length previousDistances);
            standardDeviation = sqrt variance;
            stabilityScore = max 0 (100 - (standardDeviation * 20))
        in stabilityScore)"

section \<open>Session aggregator (hooks: useWeldingSimulation)\<close>

definition calculateAngleScore :: "real \<Rightarrow> IdealRange \<Rightarrow> real" where
  "calculateAngleScore angle idealRange =
     (if angle \<ge> min_val idealRange \<and> angle \<le> max_val idealRange then 100
      else let deviation = min \<bar>angle - min_val idealRange\<bar> \<bar>angle - max_val idealRange\<bar>
           in max 0 (100 - deviation * 2))"

definition calculateDistanceScore :: "real \<Rightarrow> IdealRange \<Rightarrow> real" where
  "calculateDistanceScore distance idealRange =
     (if distance \<ge> min_val idealRange \<and> distance \<le> max_val idealRange then 100
      else let deviation = min \<bar>distance - min_val idealRange\<bar> \<bar>distance - max_val idealRange\<bar>
           in max 0 (100 - deviation * 5))"

definition calculateSpeedScore :: "real \<Rightarrow> IdealRange \<Rightarrow> real" where
  "calculateSpeedScore speed idealRange =
     (if speed \<ge> min_val idealRange \<and> speed \<le> max_val idealRange then 100
      else let deviation = min \<bar>speed - min_val idealRange\<bar> \<bar>speed - max_val idealRange\<bar>
           in max 0 (100 - deviation * 3))"

definition calculateSmoothnessScore :: "SensorData \<Rightarrow> real" where
  "calculateSmoothnessScore sd =
     (let accel = acceleration sd;
          variance = ((vx accel) ^ 2 + (vy accel) ^ 2 + (vz accel) ^ 2) / 3
      in max 0 (100 - variance * 10))"

text \<open>\<open>WELDING_PARAMETERS\<close>: the technique profiles.\<close>

fun WELDING_PARAMETERS :: "WeldingType \<Rightarrow> WeldingParameters" where
  "WELDING_PARAMETERS MIG =
     \<lparr>technique = MIG,
      idealAngle = \<lparr>min_val = 70, max_val = 80\<rparr>,
      idealDistance = \<lparr>min_val = 10, max_val = 15\<rparr>,
      idealSpeed = \<lparr>min_val = 5, max_val = 15\<rparr>,
      scoring = \<lparr>w_angle = 40, w_distance = 30, w_speed = 20, w_smoothness = 10\<rparr>\<rparr>"
| "WELDING_PARAMETERS TIG =
     \<lparr>technique = TIG,
      idealAngle = \<lparr>min_val = 60, max_val = 75\<rparr>,
      idealDistance = \<lparr>min_val = 2, max_val = 5\<rparr>,
      idealSpeed = \<lparr>min_val = 3, max_val = 8\<rparr>,
      scoring = \<lparr>w_angle = 40, w_distance = 30, w_speed = 20, w_smoothness = 10\<rparr>\<rparr>"
| "WELDING_PARAMETERS ELECTRODO =
     \<lparr>technique = ELECTRODO,
      idealAngle = \<lparr>min_val = 60, max_val = 80\<rparr>,
      idealDistance = \<lparr>min_val = 5, max_val = 12\<rparr>,
      idealSpeed = \<lparr>min_val = 8, max_val = 20\<rparr>,
      scoring = \<lparr>w_angle = 40, w_distance = 30, w_speed = 20, w_smoothness = 10\<rparr>\<rparr>"

text \<open>
  The state the hook keeps between calls (its \<open>useState\<close> cells). Every operation takes
  the state its closure reads and returns the state after its setters have run.
\<close>

record SimState =
  currentTechnique :: WeldingType
  isRecording :: bool
  currentSession :: "WeldingSession option"
  currentMetrics :: "RealTimeMetrics option"
  sessionStartTime :: "int option"

text \<open>The state of a freshly mounted hook.\<close>

definition initialState :: SimState where
  "initialState =
     \<lparr>currentTechnique = MIG, isRecording = False, currentSession = None,
      currentMetrics = None, sessionStartTime = None\<rparr>"

definition getGrade :: "js_number \<Rightarrow> Grade" where
  "getGrade score =
     (if js_ge score 90 then A
      else if js_ge score 80 then B
      else if js_ge score 70 then C
      else if js_ge score 60 then D
      else F)"

text \<open>
  \<open>calculateRealTimeMetrics\<close>. \<open>sensorData.gyroscope\<close> and \<open>sensorData.acceleration\<close>
  are objects (always truthy); \<open>now\<close> is the value of \<open>Date.now()\<close>.
\<close>

definition calculateRealTimeMetrics ::
  "SensorData \<Rightarrow> ARMarkerData option \<Rightarrow> WeldingParameters \<Rightarrow> int \<Rightarrow> RealTimeMetrics" where
  "calculateRealTimeMetrics sd md params now =
     (let angle = \<bar>beta (gyroscope sd)\<bar>;
          distance = (case md of None \<Rightarrow> 0 | Some m \<Rightarrow> vz (position m));
          accelerationMagnitude =
            sqrt ((vx (acceleration sd)) ^ 2 + (vy (acceleration sd)) ^ 2 + (vz (acceleration sd)) ^ 2);
          speed = \<bar>accelerationMagnitude - 9.8\<bar>;
          angleScore = calculateAngleScore angle (idealAngle params);
          distanceScore = calculateDistanceScore distance (idealDistance params);
          speedScore = calculateSpeedScore speed (idealSpeed params);
          smoothnessScore = calculateSmoothnessScore sd;
          qualityScore' =
            (angleScore * w_angle (scoring params) +
             distanceScore * w_distance (scoring params) +
             speedScore * w_speed (scoring params) +
             smoothnessScore * w_smoothness (scoring params)) / 100;
          stabilityScore' = (angleScore + distanceScore + speedScore) / 3
      in \<lparr>currentAngle = angle,
          currentDistance = distance,
          currentSpeed = speed,
          stabilityScore = stabilityScore',
          qualityScore = qualityScore',
          isInRange = (angleScore > 70 \<and> distanceScore > 70),
          timestamp_m = now\<rparr>)"

text \<open>
  \<open>calculateFinalScore\<close>. The four averages divide by \<open>metrics.length\<close>; the quotient
  is \<^const>\<open>js_div\<close>, so a zero divisor would show as \<open>None\<close>. The smoothness term scores
  a sensor sample built from the stored entry: zero acceleration, \<open>beta\<close> the stored angle.
\<close>

definition calculateFinalScore :: "RealTimeMetrics list \<Rightarrow> WeldingParameters \<Rightarrow> js_number" where
  "calculateFinalScore ms params =
     (if length ms = 0 then Some 0
      else do {
        avgAngleScore \<leftarrow>
          js_div (foldl (\<lambda>sum m. sum + calculateAngleScore (currentAngle m) (idealAngle params)) 0 ms)
                 (real (length ms));
        avgDistanceScore \<leftarrow>
          js_div (foldl (\<lambda>sum m. sum + calculateDistanceScore (currentDistance m) (idealDistance params)) 0 ms)
                 (real (length ms));
        avgSpeedScore \<leftarrow>
          js_div (foldl (\<lambda>sum m. sum + calculateSpeedScore (currentSpeed m) (idealSpeed params)) 0 ms)
                 (real (length ms));
        avgSmoothnessScore \<leftarrow>
          js_div (foldl (\<lambda>sum m. sum + calculateSmoothnessScore
                           \<lparr>acceleration = \<lparr>vx = 0, vy = 0, vz = 0\<rparr>,
                            gyroscope = \<lparr>alpha = 0, beta = currentAngle m, gamma = 0\<rparr>,
                            timestamp_s = timestamp_m m\<rparr>) 0 ms)
                 (real (length ms));
        Some ((avgAngleScore * w_angle (scoring params) +
               avgDistanceScore * w_distance (scoring params) +
               avgSpeedScore * w_speed (scoring params) +
               avgSmoothnessScore * w_smoothness (scoring params)) / 100)
      })"

text \<open>
  Rendering of a non-negative integer in a radix (\<open>Number.prototype.toString(radix)\<close>,
  digits \<open>0-9a-z\<close>); the sources use the radices 10 and 36.
\<close>

definition digit_char :: "nat \<Rightarrow> char" where
  "digit_char d = ''0123456789abcdefghijklmnopqrstuvwxyz'' ! (d mod 36)"

function nat_toString :: "nat \<Rightarrow> nat \<Rightarrow> string" where
  "nat_toString radix n =
     (if n < radix \<or> radix < 2 then [digit_char n]
      else nat_toString radix (n div radix) @ [digit_char (n mod radix)])"
  by pat_completeness auto
termination
  by (relation "measure (\<lambda>(radix, n). n)") auto

declare nat_toString.simps [simp del]

definition int_toString :: "nat \<Rightarrow> int \<Rightarrow> string" where
  "int_toString radix i =
     (if i < 0 then CHR ''-'' # nat_toString radix (nat (- i)) else nat_toString radix (nat i))"

text \<open>
  \<open>startSession\<close>. \<open>Date.now()\<close> is read three times: for the identifier, for
  \<open>startTime\<close> and for \<open>setSessionStartTime\<close>.
\<close>

definition startSession ::
  "WeldingType \<Rightarrow> int \<Rightarrow> int \<Rightarrow> int \<Rightarrow> SimState \<Rightarrow> WeldingSession \<times> SimState" where
  "startSession tq nowId nowStart nowState st =
     (let params = WELDING_PARAMETERS tq;
          session =
            \<lparr>session_id = ''session_'' @ int_toString 10 nowId,
             session_technique = tq,
             startTime = nowStart,
             endTime = None,
             duration = 0,
             parameters = params,
             sensorData = [],
             markerData = [],
             metrics = [],
             finalScore = Some 0,
             grade = F\<rparr>
      in (session,
          st\<lparr>currentSession := Some session, currentTechnique := tq, isRecording := True,
             sessionStartTime := Some nowState\<rparr>))"

text \<open>
  \<open>stopSession\<close>. The guard \<open>!currentSession || !sessionStartTime\<close> returns \<open>null\<close>
  (here \<open>None\<close>) and leaves the state alone; \<open>!sessionStartTime\<close> holds for \<open>null\<close>
  and for the number 0.
\<close>

definition stopSession :: "int \<Rightarrow> SimState \<Rightarrow> WeldingSession option \<times> SimState" where
  "stopSession now st =
     (case currentSession st of
        None \<Rightarrow> (None, st)
      | Some session \<Rightarrow>
         (case sessionStartTime st of
            None \<Rightarrow> (None, st)
          | Some t0 \<Rightarrow>
             if t0 = 0 then (None, st)
             else
               let endTime' = now;
                   duration' = endTime' - t0;
                   finalScore' = calculateFinalScore (metrics session) (parameters session);
                   grade' = getGrade finalScore';
                   completedSession =
                     session\<lparr>endTime := Some endTime', duration := duration',
                             finalScore := finalScore', grade := grade'\<rparr>
               in (Some completedSession,
                   st\<lparr>currentSession := Some completedSession, isRecording := False,
                      sessionStartTime := None\<rparr>)))"

text \<open>\<open>updateSession\<close>: a no-op unless recording with a session.\<close>

definition updateSession :: "SensorData \<Rightarrow> ARMarkerData option \<Rightarrow> int \<Rightarrow> SimState \<Rightarrow> SimState" where
  "updateSession sd md now st =
     (case currentSession st of
        None \<Rightarrow> st
      | Some session \<Rightarrow>
          if \<not> isRecording st then st
          else
            let m = calculateRealTimeMetrics sd md (parameters session) now;
                updatedSession =
                  session\<lparr>sensorData := sensorData session @ [sd],
                          markerData := (case md of None \<Rightarrow> markerData session
                                         | Some mk \<Rightarrow> markerData session @ [mk]),
                          metrics := metrics session @ [m]\<rparr>
            in st\<lparr>currentMetrics := Some m, currentSession := Some updatedSession\<rparr>)"

section \<open>Certificates (utils/certificateUtils)\<close>

definition calculateCertificateGrade :: "js_number \<Rightarrow> Grade" where
  "calculateCertificateGrade score =
     (if js_ge score 90 then A
      else if js_ge score 80 then B
      else if js_ge score 70 then C
      else if js_ge score 60 then D
      else F)"

text \<open>
  Strings are lists of \<^typ>\<open>char\<close>; \<open>charCodeAt\<close> is \<^const>\<open>of_char\<close>, so the model
  covers names whose code units are below 256.

  \<open>simpleHash\<close>: \<open>hash << 5\<close> and \<open>hash & hash\<close> convert to a 32-bit integer, so the
  loop is arithmetic on 32-bit words; \<open>Math.abs\<close> is taken of the signed value.
\<close>

definition hash_step :: "32 word \<Rightarrow> char \<Rightarrow> 32 word" where
  "hash_step hash c = (push_bit 5 hash - hash) + of_nat (of_char c)"

definition simpleHash :: "string \<Rightarrow> int" where
  "simpleHash str = \<bar>sint (foldl hash_step 0 str)\<bar>"

text \<open>
  \<open>toUpperCase\<close>: the letters \<open>a-z\<close> become \<open>A-Z\<close>; the other characters it is applied
  to here (\<open>0-9\<close>, \<open>.\<close>) stay.
\<close>

definition toUpperCase_char :: "char \<Rightarrow> char" where
  "toUpperCase_char c =
     (case map_of (zip ''abcdefghijklmnopqrstuvwxyz'' ''ABCDEFGHIJKLMNOPQRSTUVWXYZ'') c of
        Some u \<Rightarrow> u
      | None \<Rightarrow> c)"

definition toUpperCase :: "string \<Rightarrow> string" where
  "toUpperCase s = map toUpperCase_char s"

text \<open>
  \<open>codes[technique] || 'U'\<close>, for the keys that are no inherited member of an object
  (\<open>constructor\<close>, \<open>toString\<close> and the like), which a technique of the closed enumeration
  never is.
\<close>

definition getTechniqueCode :: "string \<Rightarrow> string" where
  "getTechniqueCode tq =
     (case map_of [(''MIG'', ''M''), (''TIG'', ''T''), (''ELECTRODO'', ''E'')] tq of
        Some c \<Rightarrow> c
      | None \<Rightarrow> ''U'')"

definition getScoreCode :: "real \<Rightarrow> string" where
  "getScoreCode score =
     (if score \<ge> 95 then ''A+''
      else if score \<ge> 90 then ''A''
      else if score \<ge> 80 then ''B''
      else if score \<ge> 70 then ''C''
      else if score \<ge> 60 then ''D''
      else ''F'')"

text \<open>
  \<open>generateValidationCode\<close>. \<open>isoDate\<close> is the value of \<open>new Date().toISOString()\<close>
  and \<open>rnd\<close> the value of \<open>Math.random().toString(36)\<close>. \<open>substring(0, 4)\<close> is
  \<open>take 4\<close>, \<open>substring(2, 6)\<close> is \<open>take 4 \<circ> drop 2\<close>, \<open>slice(0, 10)\<close> is \<open>take 10\<close>,
  and \<open>replace(/-/g, '')\<close> removes every \<open>-\<close>.
\<close>

definition generateValidationCode :: "string \<Rightarrow> string \<Rightarrow> real \<Rightarrow> string \<Rightarrow> string \<Rightarrow> string" where
  "generateValidationCode userName tq score isoDate rnd =
     (let prefix = ''WELD'';
          userHash = toUpperCase (take 4 (int_toString 36 (simpleHash userName)));
          techCode = getTechniqueCode tq;
          scoreCode = getScoreCode score;
          dateCode = filter (\<lambda>c. c \<noteq> CHR ''-'') (take 10 isoDate);
          randomCode = toUpperCase (take 4 (drop 2 rnd))
      in prefix @ ''-'' @ userHash @ techCode @ scoreCode @ ''-'' @ dateCode @ ''-'' @ randomCode)"

definition isDigit :: "char \<Rightarrow> bool" where
  "isDigit c = ((48::nat) \<le> of_char c \<and> of_char c \<le> (57::nat))"

definition isUpperOrDigit :: "char \<Rightarrow> bool" where
  "isUpperOrDigit c = (((65::nat) \<le> of_char c \<and> of_char c \<le> (90::nat)) \<or> isDigit c)"

text \<open>
  \<open>validateCertificateCode\<close>: the pattern
  \<open>/^WELD-[A-Z0-9]{6}-[0-9]{8}-[A-Z0-9]{4}$/\<close> has no alternation or repetition of
  variable length, so it matches exactly the strings of 25 characters with these
  characters at these places.
\<close>

definition validateCertificateCode :: "string \<Rightarrow> bool" where
  "validateCertificateCode code =
     (length code = 25 \<and>
      take 5 code = ''WELD-'' \<and>
      list_all isUpperOrDigit (take 6 (drop 5 code)) \<and>
      take 1 (drop 11 code) = ''-'' \<and>
      list_all isDigit (take 8 (drop 12 code)) \<and>
      take 1 (drop 20 code) = ''-'' \<and>
      list_all isUpperOrDigit (take 4 (drop 21 code)))"

text \<open>\<open>code.split('-')\<close>\<close>

fun split_on :: "char \<Rightarrow> string \<Rightarrow> string \<Rightarrow> string list" where
  "split_on sep acc [] = [acc]"
| "split_on sep acc (c # cs) =
     (if c = sep then acc # split_on sep [] cs else split_on sep (acc @ [c]) cs)"

definition getTechniqueFromCode :: "string \<Rightarrow> string" where
  "getTechniqueFromCode code =
     (case map_of [(''M'', ''MIG''), (''T'', ''TIG''), (''E'', ''ELECTRODO'')] code of
        Some t \<Rightarrow> t
      | None \<Rightarrow> ''UNKNOWN'')"

text \<open>\<open>scoreRanges\<close> and \<open>getScoreFromCode\<close>: the declared bucket of each score code.\<close>

definition scoreRanges :: "(string \<times> IdealRange) list" where
  "scoreRanges =
     [(''A+'', \<lparr>min_val = 95, max_val = 100\<rparr>),
      (''A'', \<lparr>min_val = 90, max_val = 94\<rparr>),
      (''B'', \<lparr>min_val = 80, max_val = 89\<rparr>),
      (''C'', \<lparr>min_val = 70, max_val = 79\<rparr>),
      (''D'', \<lparr>min_val = 60, max_val = 69\<rparr>),
      (''F'', \<lparr>min_val = 0, max_val = 59\<rparr>)]"

definition getScoreFromCode :: "string \<Rightarrow> real" where
  "getScoreFromCode code =
     (case map_of scoreRanges code of
        Some range' \<Rightarrow> (min_val range' + max_val range') / 2
      | None \<Rightarrow> 0)"

text \<open>
  \<open>parseInt\<close> on a string of decimal digits, and \<open>parseDateCode\<close>; the date is kept as
  the three arguments of \<open>new Date(year, month - 1, day)\<close>.
\<close>

definition parseInt :: "string \<Rightarrow> int" where
  "parseInt s = foldl (\<lambda>a c. 10 * a + (int (of_char c) - 48)) 0 s"

definition parseDateCode :: "string \<Rightarrow> int \<times> int \<times> int" where
  "parseDateCode dateCode =
     (let year = parseInt (take 4 dateCode);
          month = parseInt (take 2 (drop 4 dateCode));
          day = parseInt (take 2 (drop 6 dateCode))
      in (year, month - 1, day))"

record ParsedCode =
  parsed_userHash :: string
  parsed_technique :: string
  parsed_scoreCode :: string
  parsed_score :: real
  parsed_date :: "int \<times> int \<times> int"
  parsed_randomCode :: string
  isValid :: bool

text \<open>
  \<open>parseValidationCode\<close>: \<open>null\<close> (here \<open>None\<close>) for a code the pattern rejects. A code
  the pattern accepts has four parts; \<open>charAt(4)\<close> is \<open>take 1 \<circ> drop 4\<close> and
  \<open>substring(5, 7)\<close> is \<open>take 2 \<circ> drop 5\<close>.
\<close>

definition parseValidationCode :: "string \<Rightarrow> ParsedCode option" where
  "parseValidationCode code =
     (if \<not> validateCertificateCode code then None
      else
        (case split_on CHR ''-'' [] code of
           p0 # p1 # p2 # p3 # rest \<Rightarrow>
             let userHash = take 4 p1;
                 techniqueCode = take 1 (drop 4 p1);
                 scoreCode = take 2 (drop 5 p1);
                 dateCode = p2;
                 randomCode = p3
             in Some \<lparr>parsed_userHash = userHash,
                      parsed_technique = getTechniqueFromCode techniqueCode,
                      parsed_scoreCode = scoreCode,
                      parsed_score = getScoreFromCode scoreCode,
                      parsed_date = parseDateCode dateCode,
                      parsed_randomCode = randomCode,
                      isValid = True\<rparr>
         | _ \<Rightarrow> None))"

text \<open>The string a technique of the closed enumeration is at run time.\<close>

fun weldingTypeString :: "WeldingType \<Rightarrow> string" where
  "weldingTypeString MIG = ''MIG''"
| "weldingTypeString TIG = ''TIG''"
| "weldingTypeString ELECTRODO = ''ELECTRODO''"

section \<open>Pattern recognition (utils/patternRecognition)\<close>

record MarkerCorner =
  px :: real
  py :: real

record DetectedPattern =
  corners :: "MarkerCorner list"
  center :: MarkerCorner
  pattern_size :: real
  confidence :: real
  timestamp_p :: int

text \<open>The objects \<open>{ corners, confidence }\<close> that \<open>groupCornersIntoSquares\<close> collects.\<close>

record Square =
  sq_corners :: "MarkerCorner list"
  sq_confidence :: real

text \<open>
  The argument of \<open>detectSquarePatterns\<close>: an object with \<open>width\<close> and \<open>height\<close>
  (non-negative integers) and \<open>data\<close>, a \<open>Uint8ClampedArray\<close> (numbers 0..255);
  \<open>data = None\<close> is an object that has no \<open>data\<close>. Nothing here says that \<open>data\<close> has
  \<open>4 * width * height\<close> elements, as the \<open>data\<close> of a browser's \<open>ImageData\<close> has.
\<close>

record ImageData =
  data :: "nat list option"
  width :: nat
  height :: nat

text \<open>The exceptions the detector can raise.\<close>

datatype js_error = TypeError | RangeError

text \<open>
  What the detector takes from the engine that runs it. \<open>maxLength\<close> is the largest
  length for which \<open>new Uint8ClampedArray(length)\<close> succeeds; for a larger one it throws
  a \<open>RangeError\<close>. \<open>luminance r g b\<close> is the value of
  \<open>Math.round(0.299 * r + 0.587 * g + 0.114 * b)\<close> as the engine computes it in double
  precision; doubles are not modelled, so the function is a parameter.
\<close>

record JsEngine =
  maxLength :: nat
  luminance :: "nat \<Rightarrow> nat \<Rightarrow> nat \<Rightarrow> int"

text \<open>
  The value stored for the pixel that starts at index \<open>i\<close>. Reading \<open>data\<close> past its end
  gives \<open>undefined\<close>, the sum is then \<open>NaN\<close> and a \<open>Uint8ClampedArray\<close> stores 0 for
  it; every other value is clamped to 0..255.
\<close>

definition gray_value :: "(nat \<Rightarrow> nat \<Rightarrow> nat \<Rightarrow> int) \<Rightarrow> nat list \<Rightarrow> nat \<Rightarrow> nat" where
  "gray_value lum d i =
     (if i + 2 < length d
      then nat (min 255 (max 0 (lum (d ! i) (d ! (i + 1)) (d ! (i + 2)))))
      else 0)"

text \<open>
  The grayscale loop \<open>for (let i = 0; i < data.length; i += 4) grayData[i / 4] = gray\<close>.
  A store past the end of a typed array is ignored, as \<open>list_update\<close> does; when \<open>i\<close> is no
  multiple of 4 the index is no integer and nothing is stored.
\<close>

function grayscale_loop ::
  "(nat \<Rightarrow> nat \<Rightarrow> nat \<Rightarrow> int) \<Rightarrow> nat list \<Rightarrow> nat \<Rightarrow> nat list \<Rightarrow> nat list" where
  "grayscale_loop lum d i grayData =
     (if i < length d
      then grayscale_loop lum d (i + 4)
             (if i mod 4 = 0 then grayData[i div 4 := gray_value lum d i] else grayData)
      else grayData)"
  by pat_completeness auto
termination
  by (relation "measure (\<lambda>(lum, d, i, grayData). length d - i)") auto

declare grayscale_loop.simps [simp del]

text \<open>
  Reading \<open>grayData[idx]\<close>: \<open>None\<close> is \<open>undefined\<close> (an index past the end), which makes
  the gradient sum \<open>NaN\<close>.
\<close>

definition gray_at :: "nat list \<Rightarrow> int \<Rightarrow> real option" where
  "gray_at grayData idx =
     (if 0 \<le> idx \<and> nat idx < length grayData then Some (real (grayData ! nat idx)) else None)"

text \<open>The offsets \<open>(kx, ky)\<close> of the two kernel loops, \<open>(0, 0)\<close> skipped.\<close>

definition kernel_offsets :: "(int \<times> int) list" where
  "kernel_offsets =
     [(kx, ky). ky \<leftarrow> [-1, 0, 1], kx \<leftarrow> [-1, 0, 1], \<not> (kx = 0 \<and> ky = 0)]"

text \<open>\<open>varianceSum / (kernelSize * kernelSize - 1)\<close> at the pixel \<open>(x, y)\<close>.\<close>

definition averageGradient :: "nat list \<Rightarrow> nat \<Rightarrow> nat \<Rightarrow> nat \<Rightarrow> real option" where
  "averageGradient grayData w x y =
     (let centerIdx = int y * int w + int x;
          centerValue = gray_at grayData centerIdx;
          varianceSum =
            foldl (\<lambda>acc (kx, ky).
                     let neighborIdx = (int y + ky) * int w + (int x + kx);
                         neighborValue = gray_at grayData neighborIdx
                     in (case (acc, centerValue, neighborValue) of
                           (Some s, Some c, Some n) \<Rightarrow> Some (s + \<bar>c - n\<bar>)
                         | _ \<Rightarrow> None))
                  (Some 0) kernel_offsets
      in (case varianceSum of None \<Rightarrow> None | Some s \<Rightarrow> Some (s / 8)))"

text \<open>
  \<open>findCornerPoints\<close>: rows \<open>y\<close> from 1 below \<open>height - 1\<close>, columns \<open>x\<close> from 1 below
  \<open>width - 1\<close>; a comparison with \<open>NaN\<close> is false.
\<close>

definition isCornerPixel :: "nat list \<Rightarrow> nat \<Rightarrow> real \<Rightarrow> nat \<Rightarrow> nat \<Rightarrow> bool" where
  "isCornerPixel grayData w threshold x y =
     (case averageGradient grayData w x y of None \<Rightarrow> False | Some g \<Rightarrow> g > threshold)"

definition findCornerPoints :: "nat list \<Rightarrow> nat \<Rightarrow> nat \<Rightarrow> real \<Rightarrow> MarkerCorner list" where
  "findCornerPoints grayData w h threshold =
     [\<lparr>px = real x, py = real y\<rparr>. y \<leftarrow> [1..<h - 1], x \<leftarrow> [1..<w - 1],
        isCornerPixel grayData w threshold x y]"

text \<open>The distances between all pairs \<open>i < j\<close> of points, in the order of the two loops.\<close>

definition pair_distances :: "MarkerCorner list \<Rightarrow> real list" where
  "pair_distances points =
     [sqrt ((px (points ! i) - px (points ! j)) * (px (points ! i) - px (points ! j)) +
            (py (points ! i) - py (points ! j)) * (py (points ! i) - py (points ! j))).
        i \<leftarrow> [0..<length points], j \<leftarrow> [i + 1..<length points]]"

text \<open>
  \<open>isValidSquare\<close>. \<open>distances.sort((a, b) => a - b)\<close> sorts ascending; \<open>slice(0, 4)\<close> is
  \<open>take 4\<close> and \<open>slice(4, 6)\<close> is \<open>take 2 \<circ> drop 4\<close>.
\<close>

definition isValidSquare :: "MarkerCorner list \<Rightarrow> real \<Rightarrow> bool" where
  "isValidSquare points minSize =
     (if length points \<noteq> 4 then False
      else
        let distances = sort (pair_distances points);
            sideLengths = take 4 distances;
            diagonalLengths = take 2 (drop 4 distances);
            avgSide = foldl (\<lambda>sum len. sum + len) 0 sideLengths / 4;
            sideVariance = foldl (\<lambda>sum len. sum + (len - avgSide) ^ 2) 0 sideLengths / 4;
            sideCV = sqrt sideVariance / avgSide
        in if sideCV > 0.2 \<or> avgSide < minSize then False
           else
             let avgDiagonal = (diagonalLengths ! 0 + diagonalLengths ! 1) / 2;
                 diagonalVariance = \<bar>diagonalLengths ! 0 - diagonalLengths ! 1\<bar> / avgDiagonal
             in if diagonalVariance > 0.2 then False
                else
                  let expectedDiagonal = avgSide * sqrt 2;
                      diagonalRatio = avgDiagonal / expectedDiagonal
                  in diagonalRatio > 0.8 \<and> diagonalRatio < 1.6)"

definition calculateCenter :: "MarkerCorner list \<Rightarrow> MarkerCorner" where
  "calculateCenter cs =
     (let sumX = foldl (\<lambda>sum corner. sum + px corner) 0 cs;
          sumY = foldl (\<lambda>sum corner. sum + py corner) 0 cs
      in \<lparr>px = sumX / real (length cs), py = sumY / real (length cs)\<rparr>)"

definition calculateSize :: "MarkerCorner list \<Rightarrow> real" where
  "calculateSize cs =
     (let c = calculateCenter cs;
          distances = map (\<lambda>corner.
                        let dx = px corner - px c; dy = py corner - py c
                        in sqrt (dx * dx + dy * dy)) cs
      in foldl (\<lambda>sum dist. sum + dist) 0 distances / real (length distances))"

definition calculateSquareConfidence :: "MarkerCorner list \<Rightarrow> real" where
  "calculateSquareConfidence points =
     (let c = calculateCenter points;
          size' = calculateSize points;
          sizeScore = min (size' / 100) 1.0;
          centerScore = 1.0 - (\<bar>px c - 320\<bar> + \<bar>py c - 240\<bar>) / 800;
          distances = sort (pair_distances points);
          avgSide = foldl (\<lambda>sum len. sum + len) 0 (take 4 distances) / 4;
          sideVariance = foldl (\<lambda>sum len. sum + (len - avgSide) ^ 2) 0 (take 4 distances) / 4;
          regularityScore = max 0 (1.0 - (sideVariance / avgSide))
      in sizeScore * 0.3 + centerScore * 0.3 + regularityScore * 0.4)"

text \<open>
  \<open>groupCornersIntoSquares\<close>: the four loops \<open>i < j < k < l\<close>, then
  \<open>squares.sort((a, b) => b.confidence - a.confidence)\<close>, a stable sort by descending
  confidence. The parameters \<open>width\<close> and \<open>height\<close> are not used by the source either.
\<close>

definition groupCornersIntoSquares :: "MarkerCorner list \<Rightarrow> nat \<Rightarrow> nat \<Rightarrow> real \<Rightarrow> Square list" where
  "groupCornersIntoSquares cs w h minSize =
     (let squares =
            [\<lparr>sq_corners = [cs ! i, cs ! j, cs ! k, cs ! l],
              sq_confidence = calculateSquareConfidence [cs ! i, cs ! j, cs ! k, cs ! l]\<rparr>.
               i \<leftarrow> [0..<length cs], j \<leftarrow> [i + 1..<length cs],
               k \<leftarrow> [j + 1..<length cs], l \<leftarrow> [k + 1..<length cs],
               isValidSquare [cs ! i, cs ! j, cs ! k, cs ! l] minSize]
      in sort_key (\<lambda>sq. - sq_confidence sq) squares)"

definition calculateConfidence :: "Square \<Rightarrow> real" where
  "calculateConfidence square = min (sq_confidence square) 1.0"

text \<open>
  The grayscale conversion on an allocated array: \<open>new Uint8ClampedArray(width * height)\<close>
  is zero-filled, then the loop runs over \<open>data\<close>.
\<close>

definition grayscale :: "(nat \<Rightarrow> nat \<Rightarrow> nat \<Rightarrow> int) \<Rightarrow> nat list \<Rightarrow> nat \<Rightarrow> nat \<Rightarrow> nat list" where
  "grayscale lum d w h = grayscale_loop lum d 0 (replicate (w * h) 0)"

text \<open>
  \<open>detectSquarePatterns\<close>, with the exceptions it can raise as \<open>Inl\<close>. The argument
  \<open>None\<close> is \<open>null\<close> or \<open>undefined\<close>, for which the destructuring
  \<open>const { data, width, height } = imageData\<close> throws a \<open>TypeError\<close>. Then
  \<open>new Uint8ClampedArray(width * height)\<close> throws a \<open>RangeError\<close> when the engine cannot
  allocate that length, and \<open>data.length\<close> throws a \<open>TypeError\<close> when there is no
  \<open>data\<close>. Nothing after that throws: reads past the end of an array give \<open>undefined\<close>
  and stores past the end are dropped. \<open>clock k\<close> is the value of \<open>Date.now()\<close> read for
  the \<open>k\<close>-th pattern.
\<close>

definition detectSquarePatterns ::
  "JsEngine \<Rightarrow> ImageData option \<Rightarrow> real \<Rightarrow> real \<Rightarrow> (nat \<Rightarrow> int)
     \<Rightarrow> js_error + DetectedPattern list" where
  "detectSquarePatterns engine imageData threshold minSize clock =
     (case imageData of
        None \<Rightarrow> Inl TypeError
      | Some img \<Rightarrow>
          if maxLength engine < width img * height img then Inl RangeError
          else
            (case data img of
               None \<Rightarrow> Inl TypeError
             | Some d \<Rightarrow>
                 let grayData = grayscale (luminance engine) d (width img) (height img);
                     cornerPoints = findCornerPoints grayData (width img) (height img) threshold;
                     squares =
                       groupCornersIntoSquares cornerPoints (width img) (height img) minSize
                 in Inr (map (\<lambda>(k, square).
                               \<lparr>corners = sq_corners square,
                                center = calculateCenter (sq_corners square),
                                pattern_size = calculateSize (sq_corners square),
                                confidence = calculateConfidence square,
                                timestamp_p = clock k\<rparr>)
                            (enumerate 0 squares))))"

text \<open>
  \<open>trackPatternMovement\<close>: \<open>currentPatterns[0] || null\<close> when one of the arrays is
  empty, else the first pattern of each.
\<close>

definition trackPatternMovement ::
  "DetectedPattern list \<Rightarrow> DetectedPattern list \<Rightarrow> DetectedPattern option" where
  "trackPatternMovement previousPatterns currentPatterns =
     (case currentPatterns of
        [] \<Rightarrow> None
      | currPattern # _ \<Rightarrow>
         (case previousPatterns of
            [] \<Rightarrow> Some currPattern
          | prevPattern # _ \<Rightarrow>
              let dx = px (center currPattern) - px (center prevPattern);
                  dy = py (center currPattern) - py (center prevPattern);
                  movement = sqrt (dx * dx + dy * dy)
              in if movement > 50 then Some currPattern
                 else
                   let smoothingFactor = 0.3;
                       smoothedCenter =
                         \<lparr>px = px (center prevPattern) +
                                 (px (center currPattern) - px (center prevPattern)) * smoothingFactor,
                          py = py (center prevPattern) +
                                 (py (center currPattern) - py (center prevPattern)) * smoothingFactor\<rparr>
                   in Some (currPattern\<lparr>center := smoothedCenter\<rparr>)))"

section \<open>Notions used in the statements\<close>

text \<open>The distance from a value to the nearest bound of a range.\<close>

definition bound_deviation :: "real \<Rightarrow> IdealRange \<Rightarrow> real" where
  "bound_deviation v r = min \<bar>v - min_val r\<bar> \<bar>v - max_val r\<bar>"

text \<open>The (population) standard deviation of a window of readings.\<close>

definition std_dev :: "real list \<Rightarrow> real" where
  "std_dev xs =
     (let n = real (length xs); mu = sum_list xs / n
      in sqrt (sum_list (map (\<lambda>d. (d - mu) ^ 2) xs) / n))"

text \<open>How far the centroid of a candidate is from the centroid of the prior pattern.\<close>

definition centroid_movement :: "DetectedPattern \<Rightarrow> DetectedPattern \<Rightarrow> real" where
  "centroid_movement prev cur =
     sqrt ((px (center cur) - px (center prev)) ^ 2 + (py (center cur) - py (center prev)) ^ 2)"

text \<open>The candidate with its centroid moved 0.3 of the way from the prior centroid.\<close>

definition smoothed :: "DetectedPattern \<Rightarrow> DetectedPattern \<Rightarrow> DetectedPattern" where
  "smoothed prev cur =
     cur\<lparr>center :=
           \<lparr>px = px (center prev) + 0.3 * (px (center cur) - px (center prev)),
            py = py (center prev) + 0.3 * (py (center cur) - py (center prev))\<rparr>\<rparr>"

text \<open>Two patterns used as concrete inputs: centroid at \<open>(x, 0)\<close>.\<close>

definition pattern_at :: "real \<Rightarrow> int \<Rightarrow> DetectedPattern" where
  "pattern_at x t =
     \<lparr>corners = [], center = \<lparr>px = x, py = 0\<rparr>, pattern_size = 30, confidence = 0.9,
      timestamp_p = t\<rparr>"

text \<open>\<open>Math.round\<close>, and the luminance of a pixel computed without rounding errors.\<close>

definition js_round :: "real \<Rightarrow> int" where
  "js_round v = \<lfloor>v + 1 / 2\<rfloor>"

definition exact_luminance :: "nat \<Rightarrow> nat \<Rightarrow> nat \<Rightarrow> int" where
  "exact_luminance r g b = js_round (0.299 * real r + 0.587 * real g + 0.114 * real b)"

text \<open>
  An engine used for concrete inputs: typed arrays of up to \<open>2^32 - 1\<close> elements, and the
  luminance without rounding errors (on black and on white pixels the doubles give the
  same values, 0 and 255).
\<close>

definition reference_engine :: JsEngine where
  "reference_engine = \<lparr>maxLength = 4294967295, luminance = exact_luminance\<rparr>"

text \<open>
  The pixel data of an image given by its pixels: \<open>f x y\<close> is the \<open>(R, G, B, A)\<close> of the
  pixel in column \<open>x\<close> and row \<open>y\<close>; the rows follow one another, four numbers a pixel.
\<close>

definition pixels_of :: "nat \<Rightarrow> nat \<Rightarrow> (nat \<Rightarrow> nat \<Rightarrow> nat \<times> nat \<times> nat \<times> nat) \<Rightarrow> nat list" where
  "pixels_of w h f =
     concat (map (\<lambda>k. case f (k mod w) (k div w) of (r, g, b, a) \<Rightarrow> [r, g, b, a]) [0..<w * h])"

definition image_of :: "nat \<Rightarrow> nat \<Rightarrow> (nat \<Rightarrow> nat \<Rightarrow> nat \<times> nat \<times> nat \<times> nat) \<Rightarrow> ImageData" where
  "image_of w h f = \<lparr>data = Some (pixels_of w h f), width = w, height = h\<rparr>"

text \<open>
  The grayscale value the detector stores for a pixel.
\<close>

definition gray_of_rgba :: "(nat \<Rightarrow> nat \<Rightarrow> nat \<Rightarrow> int) \<Rightarrow> nat \<times> nat \<times> nat \<times> nat \<Rightarrow> nat" where
  "gray_of_rgba lum p = (case p of (r, g, b, a) \<Rightarrow> gray_value lum [r, g, b, a] 0)"






text \<open>
  A 1280 by 720 frame (the resolution the camera hook asks for), black with four white
  pixels at the corners of a 40 by 30 rectangle near the lower right corner.
\<close>

definition far_pixel :: "nat \<Rightarrow> nat \<Rightarrow> nat \<times> nat \<times> nat \<times> nat" where
  "far_pixel x y =
     (if (x = 1230 \<or> x = 1270) \<and> (y = 670 \<or> y = 700)
      then (255, 255, 255, 255) else (0, 0, 0, 255))"

definition far_frame :: ImageData where
  "far_frame = image_of 1280 720 far_pixel"

text \<open>
  The four white pixels of \<open>far_frame\<close>, in the order the detector finds them.
\<close>

definition far_corner_list :: "MarkerCorner list" where
  "far_corner_list =
     [\<lparr>px = 1230, py = 670\<rparr>, \<lparr>px = 1270, py = 670\<rparr>,
      \<lparr>px = 1230, py = 700\<rparr>, \<lparr>px = 1270, py = 700\<rparr>]"

text \<open>
  The pattern the detector reports for \<open>far_frame\<close>.
\<close>

definition far_pattern :: "int \<Rightarrow> DetectedPattern" where
  "far_pattern t =
     \<lparr>corners = far_corner_list, center = \<lparr>px = 1250, py = 685\<rparr>, pattern_size = 25,
      confidence = - 59 / 2240, timestamp_p = t\<rparr>"

text \<open>
  A recorded session used as a concrete input: technique MIG, started at time 1000, one
  update at time 1100 with a sensor sample of acceleration \<open>(0, 0, 6)\<close> and tilt 75,
  and a marker at distance 12.
\<close>

definition rough_sample :: SensorData where
  "rough_sample =
     \<lparr>acceleration = \<lparr>vx = 0, vy = 0, vz = 6\<rparr>,
      gyroscope = \<lparr>alpha = 0, beta = 75, gamma = 0\<rparr>,
      timestamp_s = 1100\<rparr>"

definition marker_at_12 :: ARMarkerData where
  "marker_at_12 =
     \<lparr>position = \<lparr>vx = 0, vy = 0, vz = 12\<rparr>,
      rotation = \<lparr>pitch = 0, yaw = 0, roll = 0\<rparr>,
      marker_size = 40, marker_confidence = 0.9, timestamp_a = 1100\<rparr>"

definition rough_session :: SimState where
  "rough_session =
     updateSession rough_sample (Some marker_at_12) 1100
       (snd (startSession MIG 1000 1000 1000 initialState))"

section \<open>Properties\<close>

subsection \<open>Auxiliary facts\<close>

lemma foldl_add_sum_list:
  "foldl (\<lambda>sum d. sum + f d) (a::real) xs = a + sum_list (map f xs)"
  by (induction xs arbitrary: a) simp_all

lemma foldl_plus_sum_list: "foldl (\<lambda>sum d. sum + d) (a::real) xs = a + sum_list xs"
  by (induction xs arbitrary: a) simp_all

lemma calculateFinalScore_defined: "calculateFinalScore ms params \<noteq> None"
  by (cases ms) (simp_all add: calculateFinalScore_def js_div_def)

subsection \<open>Grades\<close>

text \<open>
  Claim C10. The grade function of the session aggregator and the grade function of the
  certificate module return the same letter for every score, also for \<open>NaN\<close>: A from 90,
  B from 80, C from 70, D from 60, F otherwise.
\<close>

theorem grade_functions_agree:
  "getGrade score = calculateCertificateGrade score
   \<and> getGrade None = F
   \<and> getGrade (Some v) =
       (if v \<ge> 90 then A else if v \<ge> 80 then B else if v \<ge> 70 then C
        else if v \<ge> 60 then D else F)"
  by (simp add: getGrade_def calculateCertificateGrade_def js_ge_def)

subsection \<open>Angle score\<close>

text \<open>
  Claim C5, as stated, at an angle more than 50 degrees outside the range: the score is 0,
  not 100 minus 2 points per degree (which would be negative).
\<close>

theorem angle_score_unfloored_counterexample:
  "evaluateAngleAccuracy 200 \<lparr>min_val = 70, max_val = 80\<rparr> = 0
   \<and> calculateAngleScore 200 \<lparr>min_val = 70, max_val = 80\<rparr> = 0
   \<and> 100 - 2 * bound_deviation 200 \<lparr>min_val = 70, max_val = 80\<rparr> = - 140
   \<and> evaluateAngleAccuracy 200 \<lparr>min_val = 70, max_val = 80\<rparr>
        \<noteq> 100 - 2 * bound_deviation 200 \<lparr>min_val = 70, max_val = 80\<rparr>"
  by (simp add: evaluateAngleAccuracy_def calculateAngleScore_def bound_deviation_def Let_def)

text \<open>
  Claim C5, amended. For a range with \<open>min \<le> max\<close>, both angle scoring functions agree;
  the score is 100 inside the range; outside it is 100 minus 2 points per degree of
  distance to the nearest bound, floored at 0; among values outside the range it does not
  increase when the deviation grows; and it always lies in \<open>[0, 100]\<close>.
\<close>

theorem angle_score_floored_linear:
  assumes "min_val r \<le> max_val r"
  shows "calculateAngleScore v r = evaluateAngleAccuracy v r
    \<and> (min_val r \<le> v \<and> v \<le> max_val r \<longrightarrow> evaluateAngleAccuracy v r = 100)
    \<and> (v < min_val r \<or> max_val r < v \<longrightarrow>
          evaluateAngleAccuracy v r = max 0 (100 - 2 * bound_deviation v r))
    \<and> (v < min_val r \<longrightarrow> bound_deviation v r = min_val r - v)
    \<and> (max_val r < v \<longrightarrow> bound_deviation v r = v - max_val r)
    \<and> ((v < min_val r \<or> max_val r < v) \<and> (v' < min_val r \<or> max_val r < v')
          \<and> bound_deviation v r \<le> bound_deviation v' r \<longrightarrow>
          evaluateAngleAccuracy v' r \<le> evaluateAngleAccuracy v r)
    \<and> 0 \<le> evaluateAngleAccuracy v r \<and> evaluateAngleAccuracy v r \<le> 100"
proof -
  have same: "calculateAngleScore v r = evaluateAngleAccuracy v r"
    by (simp add: calculateAngleScore_def evaluateAngleAccuracy_def)
  have out: "evaluateAngleAccuracy u r = max 0 (100 - 2 * bound_deviation u r)"
    if "u < min_val r \<or> max_val r < u" for u
    using that assms by (auto simp: evaluateAngleAccuracy_def bound_deviation_def Let_def)
  have inr: "evaluateAngleAccuracy v r = 100" if "min_val r \<le> v \<and> v \<le> max_val r"
    using that by (simp add: evaluateAngleAccuracy_def)
  have lo: "bound_deviation v r = min_val r - v" if "v < min_val r"
    using that assms by (simp add: bound_deviation_def min_def)
  have hi: "bound_deviation v r = v - max_val r" if "max_val r < v"
    using that assms by (simp add: bound_deviation_def min_def)
  have mono: "evaluateAngleAccuracy v' r \<le> evaluateAngleAccuracy v r"
    if "(v < min_val r \<or> max_val r < v) \<and> (v' < min_val r \<or> max_val r < v')
          \<and> bound_deviation v r \<le> bound_deviation v' r"
    using that out [of v] out [of v'] by (simp add: max_def)
  have nonneg: "0 \<le> evaluateAngleAccuracy v r"
    by (simp add: evaluateAngleAccuracy_def Let_def)
  have le: "evaluateAngleAccuracy v r \<le> 100"
    by (simp add: evaluateAngleAccuracy_def Let_def)
  show ?thesis
    using same out [of v] inr lo hi mono nonneg le by blast
qed

theorem angle_score_floored_linear_witness:
  "evaluateAngleAccuracy 75 \<lparr>min_val = 70, max_val = 80\<rparr> = 100
   \<and> calculateAngleScore 95 \<lparr>min_val = 70, max_val = 80\<rparr> = 70
   \<and> evaluateAngleAccuracy 200 \<lparr>min_val = 70, max_val = 80\<rparr> = 0
   \<and> evaluateAngleAccuracy 65 \<lparr>min_val = 70, max_val = 80\<rparr> = 90
   \<and> evaluateAngleAccuracy 200 \<lparr>min_val = 70, max_val = 80\<rparr>
        \<le> evaluateAngleAccuracy 95 \<lparr>min_val = 70, max_val = 80\<rparr>"
  using angle_score_floored_linear [of "\<lparr>min_val = 70, max_val = 80\<rparr>" 75]
    angle_score_floored_linear [of "\<lparr>min_val = 70, max_val = 80\<rparr>" 95 200]
    angle_score_floored_linear [of "\<lparr>min_val = 70, max_val = 80\<rparr>" 200]
    angle_score_floored_linear [of "\<lparr>min_val = 70, max_val = 80\<rparr>" 65]
  by simp

subsection \<open>Distance stability\<close>

text \<open>
  Claim C4. The distance-stability score is 0 when the current distance is outside the
  ideal range; inside the range it is 100 for an empty window, and otherwise 100 minus 20
  points per unit of the standard deviation of the window, floored at 0.
\<close>

theorem distance_stability_score:
  "evaluateDistanceStability cur prev r =
     (if cur < min_val r \<or> cur > max_val r then 0
      else if prev = [] then 100
      else max 0 (100 - 20 * std_dev prev))"
  by (simp add: evaluateDistanceStability_def std_dev_def Let_def foldl_add_sum_list
      foldl_plus_sum_list mult.commute)

theorem distance_stability_score_witness:
  "evaluateDistanceStability 9 [11, 13] \<lparr>min_val = 10, max_val = 15\<rparr> = 0
   \<and> evaluateDistanceStability 12 [] \<lparr>min_val = 10, max_val = 15\<rparr> = 100
   \<and> evaluateDistanceStability 12 [11, 13] \<lparr>min_val = 10, max_val = 15\<rparr> = 80
   \<and> evaluateDistanceStability 12 [0, 20] \<lparr>min_val = 10, max_val = 15\<rparr> = 0"
  using distance_stability_score [of 9 "[11, 13]" "\<lparr>min_val = 10, max_val = 15\<rparr>"]
    distance_stability_score [of 12 "[]" "\<lparr>min_val = 10, max_val = 15\<rparr>"]
    distance_stability_score [of 12 "[11, 13]" "\<lparr>min_val = 10, max_val = 15\<rparr>"]
    distance_stability_score [of 12 "[0, 20]" "\<lparr>min_val = 10, max_val = 15\<rparr>"]
  by (simp add: std_dev_def Let_def power2_eq_square)

subsection \<open>Marker tracking\<close>

text \<open>
  Claim C6, as stated, at a candidate whose centroid is exactly 50px from the prior
  centroid: the movement is not less than 50, and yet the tracker smooths the centroid
  (to \<open>x = 15\<close>) instead of returning the candidate as it is.
\<close>

theorem track_at_50_counterexample:
  "\<not> centroid_movement (pattern_at 0 0) (pattern_at 50 1) < 50
   \<and> trackPatternMovement [pattern_at 0 0] [pattern_at 50 1] \<noteq> Some (pattern_at 50 1)
   \<and> trackPatternMovement [pattern_at 0 0] [pattern_at 50 1] = Some (pattern_at 15 1)"
  by (simp add: centroid_movement_def trackPatternMovement_def pattern_at_def Let_def)

text \<open>
  Claim C6, amended. With a prior pattern and a candidate, the tracker returns the
  candidate with only its centroid replaced by \<open>prev + 0.3 \<times> (candidate - prev)\<close> when the
  centroid has moved at most 50px (50 included), and the candidate unchanged when it has
  moved more than 50px. Corners, size, confidence and timestamp are the candidate's in
  both cases.
\<close>

theorem track_smooths_up_to_50:
  "trackPatternMovement (prev # ps) (cur # cs) =
     (if centroid_movement prev cur \<le> 50 then Some (smoothed prev cur) else Some cur)
   \<and> map_option corners (trackPatternMovement (prev # ps) (cur # cs)) = Some (corners cur)
   \<and> map_option pattern_size (trackPatternMovement (prev # ps) (cur # cs)) = Some (pattern_size cur)
   \<and> map_option confidence (trackPatternMovement (prev # ps) (cur # cs)) = Some (confidence cur)
   \<and> map_option timestamp_p (trackPatternMovement (prev # ps) (cur # cs)) = Some (timestamp_p cur)"
  by (simp add: trackPatternMovement_def centroid_movement_def smoothed_def Let_def
      power2_eq_square mult.commute not_le)

theorem track_smooths_up_to_50_witness:
  "trackPatternMovement [pattern_at 0 0] [pattern_at 30 1] = Some (pattern_at 9 1)
   \<and> trackPatternMovement [pattern_at 0 0] [pattern_at 50 1] = Some (pattern_at 15 1)
   \<and> trackPatternMovement [pattern_at 0 0] [pattern_at 100 1] = Some (pattern_at 100 1)"
  using track_smooths_up_to_50 [of "pattern_at 0 0" "[]" "pattern_at 30 1" "[]"]
    track_smooths_up_to_50 [of "pattern_at 0 0" "[]" "pattern_at 50 1" "[]"]
    track_smooths_up_to_50 [of "pattern_at 0 0" "[]" "pattern_at 100 1" "[]"]
  by (simp add: centroid_movement_def smoothed_def pattern_at_def)

subsection \<open>Stopping a session\<close>

text \<open>
  Claim C2, as stated, on a session started at time 1000 and stopped at 1500: the second
  \<open>stopSession\<close> returns \<open>null\<close>, not the frozen session that the hook still holds.
\<close>

theorem stop_twice_counterexample:
  "fst (stopSession 1500 (snd (startSession MIG 1000 1000 1000 initialState))) \<noteq> None
   \<and> fst (stopSession 2000
            (snd (stopSession 1500 (snd (startSession MIG 1000 1000 1000 initialState))))) = None
   \<and> fst (stopSession 2000
            (snd (stopSession 1500 (snd (startSession MIG 1000 1000 1000 initialState)))))
       \<noteq> currentSession
            (snd (stopSession 1500 (snd (startSession MIG 1000 1000 1000 initialState))))"
  by (simp add: stopSession_def startSession_def Let_def initialState_def)

text \<open>
  Claim C2, amended. When a session is being recorded (a current session and a non-zero
  start time), the first \<open>stopSession\<close> returns the completed session and stores it as the
  current session; a second \<open>stopSession\<close> on the resulting state returns \<open>null\<close> and
  leaves the state unchanged, so the stored session keeps the final score and the grade
  of the first call.
\<close>

theorem stop_twice_keeps_state:
  assumes "currentSession st = Some s" and "sessionStartTime st = Some t0" and "t0 \<noteq> 0"
  shows "fst (stopSession now1 st) \<noteq> None
    \<and> currentSession (snd (stopSession now1 st)) = fst (stopSession now1 st)
    \<and> stopSession now2 (snd (stopSession now1 st)) = (None, snd (stopSession now1 st))
    \<and> map_option finalScore (fst (stopSession now1 st))
        = Some (calculateFinalScore (metrics s) (parameters s))
    \<and> map_option grade (fst (stopSession now1 st))
        = Some (getGrade (calculateFinalScore (metrics s) (parameters s)))"
  using assms by (simp add: stopSession_def Let_def)

theorem stop_twice_keeps_state_witness:
  "fst (stopSession 1500 (snd (startSession MIG 1000 1000 1000 initialState))) \<noteq> None
   \<and> stopSession 2000 (snd (stopSession 1500 (snd (startSession MIG 1000 1000 1000 initialState))))
       = (None, snd (stopSession 1500 (snd (startSession MIG 1000 1000 1000 initialState))))"
proof -
  let ?st = "snd (startSession MIG 1000 1000 1000 initialState)"
  have a: "currentSession ?st = Some (fst (startSession MIG 1000 1000 1000 initialState))"
    by (simp add: startSession_def Let_def)
  have b: "sessionStartTime ?st = Some 1000"
    by (simp add: startSession_def Let_def)
  have c: "(1000::int) \<noteq> 0" by simp
  from stop_twice_keeps_state [OF a b c, of 1500 2000] show ?thesis by blast
qed

text \<open>
  Claim C8. For a session with no recorded metrics, the final-score computation returns
  the number 0 (no quotient with a zero divisor is formed), and \<open>stopSession\<close> returns a
  session with final score 0 and grade F.
\<close>

theorem zero_samples_score_zero_grade_F:
  assumes "currentSession st = Some s" and "metrics s = []"
    and "sessionStartTime st = Some t0" and "t0 \<noteq> 0"
  shows "calculateFinalScore (metrics s) (parameters s) = Some 0
    \<and> map_option finalScore (fst (stopSession now st)) = Some (Some 0)
    \<and> map_option grade (fst (stopSession now st)) = Some F"
  using assms by (simp add: stopSession_def Let_def calculateFinalScore_def getGrade_def js_ge_def)

theorem zero_samples_score_zero_grade_F_witness:
  "map_option finalScore
      (fst (stopSession 1500 (snd (startSession TIG 1000 1000 1000 initialState)))) = Some (Some 0)
   \<and> map_option grade
      (fst (stopSession 1500 (snd (startSession TIG 1000 1000 1000 initialState)))) = Some F"
proof -
  let ?st = "snd (startSession TIG 1000 1000 1000 initialState)"
  have a: "currentSession ?st = Some (fst (startSession TIG 1000 1000 1000 initialState))"
    by (simp add: startSession_def Let_def)
  have b: "metrics (fst (startSession TIG 1000 1000 1000 initialState)) = []"
    by (simp add: startSession_def Let_def)
  have c: "sessionStartTime ?st = Some 1000"
    by (simp add: startSession_def Let_def)
  have d: "(1000::int) \<noteq> 0" by simp
  from zero_samples_score_zero_grade_F [OF a b c d, of 1500] show ?thesis by blast
qed

subsection \<open>Validation codes\<close>

lemma short_list_cases:
  assumes "length (xs::'a list) \<le> 4"
  shows "xs = [] \<or> (\<exists>a. xs = [a]) \<or> (\<exists>a b. xs = [a, b]) \<or> (\<exists>a b c. xs = [a, b, c])
         \<or> (\<exists>a b c d. xs = [a, b, c, d])"
proof (cases xs)
  case Nil
  then show ?thesis by simp
next
  case (Cons a as)
  note A = this
  show ?thesis
  proof (cases as)
    case Nil
    with A show ?thesis by simp
  next
    case (Cons b bs)
    note B = this
    show ?thesis
    proof (cases bs)
      case Nil
      with A B show ?thesis by simp
    next
      case (Cons c cs)
      note C = this
      show ?thesis
      proof (cases cs)
        case Nil
        with A B C show ?thesis by simp
      next
        case (Cons d ds)
        with A B C assms have "ds = []" by simp
        with A B C Cons show ?thesis by simp
      qed
    qed
  qed
qed

lemma plus_not_upper_or_digit: "\<not> isUpperOrDigit CHR ''+''"
  by (simp add: isUpperOrDigit_def isDigit_def)

text \<open>
  A code whose second part carries the score code \<open>A+\<close> never matches the pattern: after
  a user hash of at most four characters and the technique letter, the \<open>+\<close> stands
  among the six characters that must be \<open>A-Z0-9\<close>, or where the second \<open>-\<close> must be.
\<close>

lemma plus_code_rejected:
  assumes "length uh \<le> 4" and "length tc = 1"
  shows "\<not> validateCertificateCode (''WELD-'' @ uh @ tc @ ''A+'' @ rest)"
proof -
  from assms(2) obtain x where tc: "tc = [x]"
    by (cases tc) simp_all
  from short_list_cases [OF assms(1)] show ?thesis
    by (auto simp: tc validateCertificateCode_def plus_not_upper_or_digit)
qed

lemma getTechniqueCode_length: "length (getTechniqueCode tq) = 1"
  by (simp add: getTechniqueCode_def)

lemma getScoreCode_elite: "95 \<le> score \<Longrightarrow> getScoreCode score = ''A+''"
  by (simp add: getScoreCode_def)

lemma simpleHash_Ana: "simpleHash ''Ana'' = 65972"
  by (simp add: simpleHash_def hash_step_def)

lemma simpleHash_Al: "simpleHash ''Al'' = 2123"
  by (simp add: simpleHash_def hash_step_def)

lemma code_Ana_97:
  "generateValidationCode ''Ana'' ''MIG'' 97 ''2026-11-02T10:15:30.000Z'' ''0.k3x9q2m1''
     = ''WELD-1EWKMA+-20261102-K3X9''"
  by (simp add: generateValidationCode_def Let_def simpleHash_Ana int_toString_def
      nat_toString.simps digit_char_def toUpperCase_def toUpperCase_char_def
      getTechniqueCode_def getScoreCode_def)

text \<open>
  For comparison, a code that does make the round trip: a score of 85 for a user whose
  hash has four digits in base 36 is parsed back to the technique and to 84.5, the
  midpoint of the bucket 80..89.
\<close>

lemma code_Ana_85_round_trip:
  "generateValidationCode ''Ana'' (weldingTypeString MIG) 85 ''2026-11-02T10:15:30.000Z''
      ''0.k3x9q2m1'' = ''WELD-1EWKMB-20261102-K3X9''
   \<and> parseValidationCode ''WELD-1EWKMB-20261102-K3X9'' =
     Some \<lparr>parsed_userHash = ''1EWK'', parsed_technique = weldingTypeString MIG,
        parsed_scoreCode = ''B'', parsed_score = 84.5, parsed_date = (2026, 10, 2),
        parsed_randomCode = ''K3X9'', isValid = True\<rparr>"
  by (simp add: generateValidationCode_def Let_def simpleHash_Ana int_toString_def
      nat_toString.simps digit_char_def toUpperCase_def toUpperCase_char_def
      getTechniqueCode_def getScoreCode_def parseValidationCode_def
      validateCertificateCode_def isUpperOrDigit_def isDigit_def getTechniqueFromCode_def
      getScoreFromCode_def scoreRanges_def parseDateCode_def parseInt_def)

text \<open>
  A second way to a rejected code: a user name whose hash has fewer than four digits in
  base 36 (\<open>Al\<close> hashes to 2123, \<open>1mz\<close>) leaves the second part one character short.
\<close>

lemma code_Al_85_rejected:
  "generateValidationCode ''Al'' (weldingTypeString MIG) 85 ''2026-11-02T10:15:30.000Z''
      ''0.k3x9q2m1'' = ''WELD-1MZMB-20261102-K3X9''
   \<and> parseValidationCode ''WELD-1MZMB-20261102-K3X9'' = None"
  by (simp add: generateValidationCode_def Let_def simpleHash_Al int_toString_def
      nat_toString.simps digit_char_def toUpperCase_def toUpperCase_char_def
      getTechniqueCode_def getScoreCode_def parseValidationCode_def validateCertificateCode_def)

text \<open>
  Claim C3 does not hold of the code: for every user name, technique, date and random
  part, the code generated for a score of 95 or more is rejected by
  \<open>parseValidationCode\<close> (it returns \<open>null\<close>), although \<open>getScoreFromCode\<close> has an entry
  for \<open>A+\<close>.
\<close>

theorem elite_score_code_never_parses:
  assumes "95 \<le> score"
  shows "parseValidationCode (generateValidationCode userName tq score isoDate rnd) = None"
proof -
  have "\<not> validateCertificateCode (generateValidationCode userName tq score isoDate rnd)"
    using plus_code_rejected [of "toUpperCase (take 4 (int_toString 36 (simpleHash userName)))"
        "getTechniqueCode tq"]
    by (simp add: generateValidationCode_def Let_def getScoreCode_elite [OF assms]
        getTechniqueCode_length toUpperCase_def)
  then show ?thesis by (simp add: parseValidationCode_def)
qed

theorem elite_score_code_never_parses_witness:
  "generateValidationCode ''Ana'' ''MIG'' 97 ''2026-11-02T10:15:30.000Z'' ''0.k3x9q2m1''
     = ''WELD-1EWKMA+-20261102-K3X9''
   \<and> parseValidationCode ''WELD-1EWKMA+-20261102-K3X9'' = None"
proof -
  have "(95::real) \<le> 97" by simp
  from elite_score_code_never_parses [OF this, of "''Ana''" "''MIG''"
      "''2026-11-02T10:15:30.000Z''" "''0.k3x9q2m1''"]
  have "parseValidationCode ''WELD-1EWKMA+-20261102-K3X9'' = None"
    by (simp only: code_Ana_97)
  with code_Ana_97 show ?thesis by (rule conjI)
qed

subsection \<open>Final score\<close>

text \<open>
  What \<open>calculateFinalScore\<close> computes for a non-empty sequence: the weighted
  combination of the averages of the angle, distance and speed scores of the stored
  entries, and a smoothness average that is 100 whatever was recorded, because the
  smoothness formula is applied to a sample of zero acceleration.
\<close>

lemma calculateFinalScore_closed_form:
  assumes "ms \<noteq> []"
  shows "calculateFinalScore ms p = Some
     ((sum_list (map (\<lambda>m. calculateAngleScore (currentAngle m) (idealAngle p)) ms)
         / real (length ms) * w_angle (scoring p)
       + sum_list (map (\<lambda>m. calculateDistanceScore (currentDistance m) (idealDistance p)) ms)
         / real (length ms) * w_distance (scoring p)
       + sum_list (map (\<lambda>m. calculateSpeedScore (currentSpeed m) (idealSpeed p)) ms)
         / real (length ms) * w_speed (scoring p)
       + 100 * w_smoothness (scoring p)) / 100)"
proof -
  have sm: "foldl (\<lambda>sum m. sum + calculateSmoothnessScore
                           \<lparr>acceleration = \<lparr>vx = 0, vy = 0, vz = 0\<rparr>,
                            gyroscope = \<lparr>alpha = 0, beta = currentAngle m, gamma = 0\<rparr>,
                            timestamp_s = timestamp_m m\<rparr>) 0 ms = 100 * real (length ms)"
    by (simp add: foldl_add_sum_list calculateSmoothnessScore_def sum_list_triv mult.commute)
  from assms have n: "real (length ms) \<noteq> 0" by simp
  show ?thesis
    using n unfolding calculateFinalScore_def sm
    by (simp add: js_div_def foldl_add_sum_list assms)
qed

lemma sqrt_36: "sqrt 36 = (6::real)"
  using real_sqrt_abs [of "6::real"] by simp

lemma rough_metrics:
  "calculateRealTimeMetrics rough_sample (Some marker_at_12) (WELDING_PARAMETERS MIG) 1100
    = \<lparr>currentAngle = 75, currentDistance = 12, currentSpeed = 3.8, stabilityScore = 98.8,
       qualityScore = 89.28, isInRange = True, timestamp_m = 1100\<rparr>"
  unfolding calculateRealTimeMetrics_def rough_sample_def marker_at_12_def
  by (simp add: Let_def sqrt_36 calculateAngleScore_def calculateDistanceScore_def
      calculateSpeedScore_def calculateSmoothnessScore_def)

lemma rough_session_metrics:
  "map_option metrics (currentSession rough_session)
    = Some [\<lparr>currentAngle = 75, currentDistance = 12, currentSpeed = 3.8,
        stabilityScore = 98.8, qualityScore = 89.28, isInRange = True, timestamp_m = 1100\<rparr>]"
  by (simp add: rough_session_def updateSession_def startSession_def initialState_def Let_def
      rough_metrics del: WELDING_PARAMETERS.simps)

text \<open>
  Claim C1 does not hold of the code. In the recorded session \<open>rough_session\<close> the one
  sample has smoothness score 0 during recording and composite score 89.28 (grade B),
  which is also the weighted combination of its four per-sample scores 100, 100, 96.4 and
  0; \<open>stopSession\<close> returns the final score 99.28 and grade A, the smoothness average
  being 100.
\<close>

theorem final_score_ignores_recorded_smoothness:
  "calculateSmoothnessScore rough_sample = 0
   \<and> map_option (map qualityScore \<circ> metrics) (currentSession rough_session) = Some [89.28]
   \<and> getGrade (Some 89.28) = B
   \<and> map_option finalScore (fst (stopSession 1500 rough_session)) = Some (Some 99.28)
   \<and> map_option grade (fst (stopSession 1500 rough_session)) = Some A"
proof -
  have st: "currentSession rough_session \<noteq> None \<and> sessionStartTime rough_session = Some 1000"
    by (simp add: rough_session_def updateSession_def startSession_def initialState_def Let_def)
  have ps: "map_option parameters (currentSession rough_session) = Some (WELDING_PARAMETERS MIG)"
    by (simp add: rough_session_def updateSession_def startSession_def initialState_def Let_def
        del: WELDING_PARAMETERS.simps)
  have fs: "calculateFinalScore
      [\<lparr>currentAngle = 75, currentDistance = 12, currentSpeed = 3.8, stabilityScore = 98.8,
        qualityScore = 89.28, isInRange = True, timestamp_m = 1100\<rparr>] (WELDING_PARAMETERS MIG)
      = Some 99.28"
    by (simp add: calculateFinalScore_def js_div_def calculateAngleScore_def
        calculateDistanceScore_def calculateSpeedScore_def calculateSmoothnessScore_def)
  have sm: "calculateSmoothnessScore rough_sample = 0"
    by (simp add: calculateSmoothnessScore_def rough_sample_def)
  have gb: "getGrade (Some 89.28) = B" and ga: "getGrade (Some 99.28) = A"
    by (simp_all add: getGrade_def js_ge_def)
  from st obtain s where s: "currentSession rough_session = Some s" by auto
  with rough_session_metrics ps have
    "metrics s = [\<lparr>currentAngle = 75, currentDistance = 12, currentSpeed = 3.8,
        stabilityScore = 98.8, qualityScore = 89.28, isInRange = True, timestamp_m = 1100\<rparr>]"
    "parameters s = WELDING_PARAMETERS MIG" by simp_all
  with s st fs ga have
    "map_option finalScore (fst (stopSession 1500 rough_session)) = Some (Some 99.28)"
    "map_option grade (fst (stopSession 1500 rough_session)) = Some A"
    by (simp_all add: stopSession_def Let_def del: WELDING_PARAMETERS.simps)
  moreover from rough_session_metrics
  have "map_option (map qualityScore \<circ> metrics) (currentSession rough_session) = Some [89.28]"
    using s by simp
  ultimately show ?thesis using sm gb by simp
qed

subsection \<open>Pattern detection\<close>

text \<open>The grayscale loop in closed form.\<close>

lemma length_grayscale_loop: "length (grayscale_loop lum d i g) = length g"
proof (induction lum d i g rule: grayscale_loop.induct)
  case (1 lum d i g)
  show ?case
  proof (cases "i < length d")
    case True
    with 1 show ?thesis by (subst grayscale_loop.simps) simp
  next
    case False
    then show ?thesis by (subst grayscale_loop.simps) simp
  qed
qed

lemma grayscale_loop_nth:
  "k < length g \<Longrightarrow> i mod 4 = 0 \<Longrightarrow>
   grayscale_loop lum d i g ! k =
     (if i \<le> 4 * k \<and> 4 * k < length d then gray_value lum d (4 * k) else g ! k)"
proof (induction lum d i g rule: grayscale_loop.induct)
  case (1 lum d i g)
  show ?case
  proof (cases "i < length d")
    case False
    then show ?thesis by (subst grayscale_loop.simps) simp
  next
    case True
    have m: "(i + 4) mod 4 = 0" using "1.prems"(2) by presburger
    have l: "k < length (if i mod 4 = 0 then g[i div 4 := gray_value lum d i] else g)"
      using "1.prems"(1) by simp
    have step: "grayscale_loop lum d i g =
        grayscale_loop lum d (i + 4) (g[i div 4 := gray_value lum d i])"
      using True "1.prems"(2) by (subst grayscale_loop.simps) simp
    from "1.IH" [OF True l m] "1.prems"(2)
    have ih: "grayscale_loop lum d (i + 4) (g[i div 4 := gray_value lum d i]) ! k =
       (if i + 4 \<le> 4 * k \<and> 4 * k < length d then gray_value lum d (4 * k)
        else (g[i div 4 := gray_value lum d i]) ! k)" by simp
    show ?thesis
    proof (cases "k = i div 4")
      case True
      with "1.prems"(2) have "4 * k = i" by presburger
      with \<open>i < length d\<close> \<open>k = i div 4\<close> "1.prems"(1) show ?thesis
        unfolding step ih by simp
    next
      case False
      with "1.prems"(2) have "i \<le> 4 * k \<longleftrightarrow> i + 4 \<le> 4 * k" by presburger
      with False show ?thesis unfolding step ih by simp
    qed
  qed
qed

lemma grayscale_nth:
  "k < w * h \<Longrightarrow>
   grayscale lum d w h ! k = (if 4 * k < length d then gray_value lum d (4 * k) else 0)"
  by (simp add: grayscale_def grayscale_loop_nth)

lemma length_grayscale: "length (grayscale lum d w h) = w * h"
  by (simp add: grayscale_def length_grayscale_loop)

lemma length_concat_quads:
  "length (concat (map (\<lambda>k. case Q k of (r, g, b, a) \<Rightarrow> [r, g, b, a]) [0..<n])) = 4 * n"
  by (induction n) (simp_all split: prod.splits)

lemma nth_concat_quads:
  "k < n \<Longrightarrow> j < 4 \<Longrightarrow>
   concat (map (\<lambda>k. case Q k of (r, g, b, a) \<Rightarrow> [r, g, b, a]) [0..<n]) ! (4 * k + j)
     = (case Q k of (r, g, b, a) \<Rightarrow> [r, g, b, a]) ! j"
proof (induction n)
  case 0
  then show ?case by simp
next
  case (Suc n)
  show ?case
  proof (cases "k < n")
    case True
    with Suc show ?thesis by (simp add: nth_append length_concat_quads)
  next
    case False
    with Suc.prems have "k = n" by simp
    with Suc.prems show ?thesis by (simp add: nth_append length_concat_quads)
  qed
qed

lemma length_pixels_of: "length (pixels_of w h f) = 4 * (w * h)"
  by (simp add: pixels_of_def length_concat_quads)

lemma gray_value_pixels_of:
  assumes "k < w * h"
  shows "gray_value lum (pixels_of w h f) (4 * k) = gray_of_rgba lum (f (k mod w) (k div w))"
proof -
  let ?Q = "\<lambda>k. f (k mod w) (k div w)"
  obtain r g b a where p: "?Q k = (r, g, b, a)" by (cases "?Q k") auto
  have n0: "pixels_of w h f ! (4 * k) = r"
    using nth_concat_quads [of k "w * h" 0 ?Q] assms p by (simp add: pixels_of_def)
  have n1: "pixels_of w h f ! Suc (4 * k) = g"
    using nth_concat_quads [of k "w * h" 1 ?Q] assms p by (simp add: pixels_of_def)
  have n2: "pixels_of w h f ! Suc (Suc (4 * k)) = b"
    using nth_concat_quads [of k "w * h" 2 ?Q] assms p by (simp add: pixels_of_def)
  show ?thesis
    using assms by (simp add: gray_value_def gray_of_rgba_def p n0 n1 n2 length_pixels_of)
qed

lemma grayscale_pixels_of:
  "grayscale lum (pixels_of w h f) w h =
     map (\<lambda>k. gray_of_rgba lum (f (k mod w) (k div w))) [0..<w * h]"
proof (rule nth_equalityI)
  show "length (grayscale lum (pixels_of w h f) w h) =
        length (map (\<lambda>k. gray_of_rgba lum (f (k mod w) (k div w))) [0..<w * h])"
    by (simp add: length_grayscale)
next
  fix k assume "k < length (grayscale lum (pixels_of w h f) w h)"
  then have k: "k < w * h" by (simp add: length_grayscale)
  then show "grayscale lum (pixels_of w h f) w h ! k =
     map (\<lambda>k. gray_of_rgba lum (f (k mod w) (k div w))) [0..<w * h] ! k"
    using grayscale_nth [OF k, of lum "pixels_of w h f"] gray_value_pixels_of [OF k, of lum f]
    by (simp add: length_pixels_of)
qed


lemma detect_returns:
  assumes "width img * height img \<le> maxLength engine" and "data img = Some d"
  shows "detectSquarePatterns engine (Some img) threshold minSize clock =
     Inr (map (\<lambda>(k, square).
                 \<lparr>corners = sq_corners square,
                  center = calculateCenter (sq_corners square),
                  pattern_size = calculateSize (sq_corners square),
                  confidence = calculateConfidence square,
                  timestamp_p = clock k\<rparr>)
           (enumerate 0
             (groupCornersIntoSquares
               (findCornerPoints (grayscale (luminance engine) d (width img) (height img))
                  (width img) (height img) threshold)
               (width img) (height img) minSize)))"
  using assms by (simp add: detectSquarePatterns_def Let_def not_less [symmetric])







text \<open>Black and white pixels, and the 3 by 3 frame with one white pixel.\<close>

lemma gray_white_black:
  assumes "lum 255 255 255 = 255" and "lum 0 0 0 = 0"
  shows "gray_of_rgba lum (if c then (255, 255, 255, 255) else (0, 0, 0, 255)) = (if c then 255 else 0)"
  using assms by (simp add: gray_of_rgba_def gray_value_def)

lemma exact_luminance_white_black:
  "exact_luminance 255 255 255 = 255" "exact_luminance 0 0 0 = 0"
  by (simp_all add: exact_luminance_def js_round_def)




lemma four_combinations:
  "[Q (cs ! i) (cs ! j) (cs ! k) (cs ! l).
       i \<leftarrow> [0..<length [c0, c1, c2, c3]], j \<leftarrow> [i + 1..<length [c0, c1, c2, c3]],
       k \<leftarrow> [j + 1..<length [c0, c1, c2, c3]], l \<leftarrow> [k + 1..<length [c0, c1, c2, c3]],
       P (cs ! i) (cs ! j) (cs ! k) (cs ! l)]
   = (if P (cs ! 0) (cs ! 1) (cs ! 2) (cs ! 3) then [Q (cs ! 0) (cs ! 1) (cs ! 2) (cs ! 3)] else [])"
  by (simp add: upt_conv_Cons numeral_2_eq_2 numeral_3_eq_3)

lemma group_of_four:
  assumes "length cs = 4" and "isValidSquare cs minSize"
  shows "groupCornersIntoSquares cs w h minSize =
           [\<lparr>sq_corners = cs, sq_confidence = calculateSquareConfidence cs\<rparr>]"
proof -
  from assms(1) obtain c0 c1 c2 c3 where cs: "cs = [c0, c1, c2, c3]"
    by (auto simp: length_Suc_conv numeral_eq_Suc)
  have nth: "[cs ! 0, cs ! 1, cs ! 2, cs ! 3] = cs"
    by (simp add: cs)
  have len: "length cs = length [cs ! 0, cs ! 1, cs ! 2, cs ! 3]"
    by (simp add: cs)
  show ?thesis
    unfolding groupCornersIntoSquares_def Let_def
    apply (subst len)+
    apply (subst four_combinations [where cs = cs
         and P = "\<lambda>a b c d. isValidSquare [a, b, c, d] minSize"
         and Q = "\<lambda>a b c d. \<lparr>sq_corners = [a, b, c, d],
                    sq_confidence = calculateSquareConfidence [a, b, c, d]\<rparr>"])
    apply (simp only: nth)
    apply (simp add: assms(2))
    done
qed









lemma far_fields:
  "data far_frame = Some (pixels_of 1280 720 far_pixel)"
  "width far_frame = 1280" "height far_frame = 720"
  by (simp_all add: far_frame_def image_of_def)

lemma far_gray:
  assumes "lum 255 255 255 = 255" and "lum 0 0 0 = 0"
  shows "grayscale lum (pixels_of 1280 720 far_pixel) 1280 720 =
     map (\<lambda>k. if (k mod 1280 = 1230 \<or> k mod 1280 = 1270) \<and> (k div 1280 = 670 \<or> k div 1280 = 700)
              then 255 else 0) [0..<1280 * 720]"
  unfolding grayscale_pixels_of far_pixel_def gray_white_black [of lum, OF assms] ..

lemma gray_at_far:
  assumes wb: "lum 255 255 255 = 255" "lum 0 0 0 = 0"
    and "0 \<le> X" "X < 1280" "0 \<le> Y" "Y < 720"
  shows "gray_at (grayscale lum (pixels_of 1280 720 far_pixel) 1280 720) (Y * 1280 + X) =
           Some (if (X = 1230 \<or> X = 1270) \<and> (Y = 670 \<or> Y = 700) then 255 else 0)"
proof -
  obtain x y where xy: "X = int x" "Y = int y"
    using assms by (metis nonneg_int_cases)
  with assms have b: "x < 1280" "y < 720" by simp_all
  then have lt: "y * 1280 + x < 1280 * 720" by simp
  have idx: "nat (Y * 1280 + X) = y * 1280 + x"
    unfolding xy by (simp add: nat_add_distrib nat_mult_distrib)
  have md: "(y * 1280 + x) mod 1280 = x" "(y * 1280 + x) div 1280 = y"
    using b by simp_all
  have nn: "0 \<le> Y * 1280 + X" using assms by simp
  show ?thesis
    unfolding gray_at_def far_gray [where lum = lum, OF wb] idx
    using lt nn b by (simp add: md xy del: upt_Suc)
qed

lemma kernel_offsets_list:
  "kernel_offsets = [(-1, -1), (0, -1), (1, -1), (-1, 0), (1, 0), (-1, 1), (0, 1), (1, 1)]"
  by (simp add: kernel_offsets_def)

lemma averageGradient_in_range:
  assumes "\<And>kx ky. kx \<in> {-1, 0, 1} \<Longrightarrow> ky \<in> {-1, 0, 1} \<Longrightarrow>
             gray_at g ((int y + ky) * int w + (int x + kx)) = Some (v kx ky)"
  shows "averageGradient g w x y =
           Some ((\<bar>v 0 0 - v (-1) (-1)\<bar> + \<bar>v 0 0 - v 0 (-1)\<bar> + \<bar>v 0 0 - v 1 (-1)\<bar>
                  + \<bar>v 0 0 - v (-1) 0\<bar> + \<bar>v 0 0 - v 1 0\<bar>
                  + \<bar>v 0 0 - v (-1) 1\<bar> + \<bar>v 0 0 - v 0 1\<bar> + \<bar>v 0 0 - v 1 1\<bar>) / 8)"
proof -
  have c: "gray_at g (int y * int w + int x) = Some (v 0 0)"
    using assms [of 0 0] by simp
  note n = assms [of "-1" "-1"] assms [of 0 "-1"] assms [of 1 "-1"] assms [of "-1" 0]
    assms [of 1 0] assms [of "-1" 1] assms [of 0 1] assms [of 1 1]
  have n': "gray_at g ((int y + - 1) * int w + (int x + - 1)) = Some (v (-1) (-1))"
    "gray_at g ((int y + - 1) * int w + (int x + 0)) = Some (v 0 (-1))"
    "gray_at g ((int y + - 1) * int w + (int x + 1)) = Some (v 1 (-1))"
    "gray_at g ((int y + 0) * int w + (int x + - 1)) = Some (v (-1) 0)"
    "gray_at g ((int y + 0) * int w + (int x + 1)) = Some (v 1 0)"
    "gray_at g ((int y + 1) * int w + (int x + - 1)) = Some (v (-1) 1)"
    "gray_at g ((int y + 1) * int w + (int x + 0)) = Some (v 0 1)"
    "gray_at g ((int y + 1) * int w + (int x + 1)) = Some (v 1 1)"
    using n by simp_all
  show ?thesis
    unfolding averageGradient_def kernel_offsets_list Let_def foldl.simps prod.case c n'
    by simp
qed

lemma far_corner_iff:
  assumes wb: "lum 255 255 255 = 255" "lum 0 0 0 = 0"
    and "1 \<le> x" "x < 1279" "1 \<le> y" "y < 719"
  shows "isCornerPixel (grayscale lum (pixels_of 1280 720 far_pixel) 1280 720) 1280 100 x y
           \<longleftrightarrow> (x = 1230 \<or> x = 1270) \<and> (y = 670 \<or> y = 700)"
proof -
  define v :: "int \<Rightarrow> int \<Rightarrow> real" where
    "v kx ky = (if (int x + kx = 1230 \<or> int x + kx = 1270) \<and> (int y + ky = 670 \<or> int y + ky = 700)
                 then 255 else 0)" for kx ky
  have g: "gray_at (grayscale lum (pixels_of 1280 720 far_pixel) 1280 720) ((int y + ky) * int 1280 + (int x + kx)) = Some (v kx ky)"
    if "kx \<in> {-1, 0, 1}" "ky \<in> {-1, 0, 1}" for kx ky
  proof -
    have "0 \<le> int x + kx" "int x + kx < 1280" "0 \<le> int y + ky" "int y + ky < 720"
      using that assms by auto
    from gray_at_far [where lum = lum, OF wb this] show ?thesis by (simp add: v_def)
  qed
  have ag: "averageGradient (grayscale lum (pixels_of 1280 720 far_pixel) 1280 720) 1280 x y =
           Some ((\<bar>v 0 0 - v (-1) (-1)\<bar> + \<bar>v 0 0 - v 0 (-1)\<bar> + \<bar>v 0 0 - v 1 (-1)\<bar>
                  + \<bar>v 0 0 - v (-1) 0\<bar> + \<bar>v 0 0 - v 1 0\<bar>
                  + \<bar>v 0 0 - v (-1) 1\<bar> + \<bar>v 0 0 - v 0 1\<bar> + \<bar>v 0 0 - v 1 1\<bar>) / 8)"
    by (rule averageGradient_in_range) (rule g)
  show ?thesis
    unfolding isCornerPixel_def ag
    by (simp add: v_def)
qed

lemma concat_no_hits:
  assumes "\<And>x. x \<in> set xs \<Longrightarrow> \<not> P x"
  shows "concat (map (\<lambda>x. if P x then G x else []) xs) = []"
  using assms by (induction xs) simp_all

lemma concat_two_hits:
  assumes "lo \<le> a" "a < b" "b < hi"
  shows "concat (map (\<lambda>x. if x = a \<or> x = b then G x else []) [lo..<hi]) = G a @ G b"
proof -
  have s1: "[lo..<hi] = [lo..<a] @ [a..<hi]"
    using assms upt_add_eq_append [of lo a "hi - a"] by simp
  have s2: "[a..<hi] = a # [Suc a..<hi]"
    using assms by (simp add: upt_conv_Cons)
  have s3: "[Suc a..<hi] = [Suc a..<b] @ [b..<hi]"
    using assms upt_add_eq_append [of "Suc a" b "hi - b"] by simp
  have s4: "[b..<hi] = b # [Suc b..<hi]"
    using assms by (simp add: upt_conv_Cons)
  have sp: "[lo..<hi] = [lo..<a] @ a # [Suc a..<b] @ b # [Suc b..<hi]"
    by (simp add: s1 s2 s3 s4)
  have z1: "concat (map (\<lambda>x. if x = a \<or> x = b then G x else []) [lo..<a]) = []"
    using assms by (intro concat_no_hits) auto
  have z2: "concat (map (\<lambda>x. if x = a \<or> x = b then G x else []) [Suc a..<b]) = []"
    using assms by (intro concat_no_hits) auto
  have z3: "concat (map (\<lambda>x. if x = a \<or> x = b then G x else []) [Suc b..<hi]) = []"
    using assms by (intro concat_no_hits) auto
  show ?thesis
    unfolding sp using assms by (simp add: z1 z2 z3)
qed

lemma far_corners:
  assumes wb: "lum 255 255 255 = 255" "lum 0 0 0 = 0"
  shows "findCornerPoints (grayscale lum (pixels_of 1280 720 far_pixel) 1280 720) 1280 720 100 =
     [\<lparr>px = 1230, py = 670\<rparr>, \<lparr>px = 1270, py = 670\<rparr>,
      \<lparr>px = 1230, py = 700\<rparr>, \<lparr>px = 1270, py = 700\<rparr>]"
proof -
  have e: "(1280::nat) - 1 = 1279" "(720::nat) - 1 = 719" by simp_all
  have row: "concat (map (\<lambda>x. if isCornerPixel (grayscale lum (pixels_of 1280 720 far_pixel) 1280 720) 1280 100 x y
                              then [\<lparr>px = real x, py = real y\<rparr>] else []) [1..<1279])
             = (if y = 670 \<or> y = 700 then [\<lparr>px = 1230, py = real y\<rparr>, \<lparr>px = 1270, py = real y\<rparr>] else [])"
    if "y \<in> set [1..<719]" for y
  proof -
    have "concat (map (\<lambda>x. if isCornerPixel (grayscale lum (pixels_of 1280 720 far_pixel) 1280 720) 1280 100 x y
                              then [\<lparr>px = real x, py = real y\<rparr>] else []) [1..<1279])
        = concat (map (\<lambda>x. if (x = 1230 \<or> x = 1270) \<and> (y = 670 \<or> y = 700)
                              then [\<lparr>px = real x, py = real y\<rparr>] else []) [1..<1279])"
      using that by (intro arg_cong [where f = concat] map_cong refl) (simp add: far_corner_iff [where lum = lum, OF wb])
    also have "\<dots> = (if y = 670 \<or> y = 700 then [\<lparr>px = 1230, py = real y\<rparr>, \<lparr>px = 1270, py = real y\<rparr>] else [])"
    proof (cases "y = 670 \<or> y = 700")
      case True
      then show ?thesis
        using concat_two_hits [of 1 1230 1270 1279 "\<lambda>x. [\<lparr>px = real x, py = real y\<rparr>]"]
        by simp
    next
      case False
      then show ?thesis by simp
    qed
    finally show ?thesis .
  qed
  have "findCornerPoints (grayscale lum (pixels_of 1280 720 far_pixel) 1280 720) 1280 720 100
      = concat (map (\<lambda>y. if y = 670 \<or> y = 700
                           then [\<lparr>px = 1230, py = real y\<rparr>, \<lparr>px = 1270, py = real y\<rparr>] else []) [1..<719])"
    unfolding findCornerPoints_def e
    by (intro arg_cong [where f = concat] map_cong refl) (erule row)
  also have "\<dots> = [\<lparr>px = 1230, py = 670\<rparr>, \<lparr>px = 1270, py = 670\<rparr>,
      \<lparr>px = 1230, py = 700\<rparr>, \<lparr>px = 1270, py = 700\<rparr>]"
    using concat_two_hits [of 1 670 700 719 "\<lambda>y. [\<lparr>px = 1230, py = real y\<rparr>, \<lparr>px = 1270, py = real y\<rparr>]"]
    by simp
  finally show ?thesis .
qed

lemma sqrt_values:
  "sqrt 1600 = 40" "sqrt 900 = 30" "sqrt 2500 = 50" "sqrt 625 = 25" "sqrt 25 = 5"
  using real_sqrt_abs [of "40::real"] real_sqrt_abs [of "30::real"] real_sqrt_abs [of "50::real"]
    real_sqrt_abs [of "25::real"] real_sqrt_abs [of "5::real"]
  by simp_all

lemma sqrt2_bounds: "7 / 5 < sqrt 2" "sqrt 2 < 3 / 2"
proof -
  show "7 / 5 < sqrt 2" by (rule real_less_rsqrt) (simp add: power2_eq_square)
  show "sqrt 2 < 3 / 2" by (rule real_less_lsqrt) (simp_all add: power2_eq_square)
qed

lemma far_distances: "pair_distances far_corner_list = [40, 30, 50, 50, 30, 40]"
  by (simp add: pair_distances_def far_corner_list_def upt_conv_Cons sqrt_values)

lemma far_sorted: "sort (pair_distances far_corner_list) = [30, 30, 40, 40, 50, 50]"
  by (simp add: far_distances)

lemma far_valid: "isValidSquare far_corner_list 20"
proof -
  have r1: "4 / 5 < 50 / (35 * sqrt 2)"
    using sqrt2_bounds by (simp add: field_simps)
  have r2: "50 / (35 * sqrt 2) < 8 / 5"
    using sqrt2_bounds by (simp add: field_simps)
  have len: "length far_corner_list = 4" by (simp add: far_corner_list_def)
  show ?thesis
    unfolding isValidSquare_def far_sorted Let_def
    using r1 r2 by (simp add: len sqrt_values)
qed

lemma far_center: "calculateCenter far_corner_list = \<lparr>px = 1250, py = 685\<rparr>"
  by (simp add: calculateCenter_def far_corner_list_def)

lemma far_size_25: "calculateSize far_corner_list = 25"
  unfolding calculateSize_def far_center Let_def
  by (simp add: far_corner_list_def sqrt_values)

lemma far_confidence: "calculateSquareConfidence far_corner_list = - 59 / 2240"
  unfolding calculateSquareConfidence_def far_center far_size_25 far_sorted Let_def
  by simp


lemma far_group:
  "groupCornersIntoSquares far_corner_list 1280 720 20 =
     [\<lparr>sq_corners = far_corner_list, sq_confidence = - 59 / 2240\<rparr>]"
proof -
  have len: "length far_corner_list = 4" by (simp add: far_corner_list_def)
  show ?thesis
    unfolding group_of_four [OF len far_valid] far_confidence ..
qed

text \<open>
  What the detector returns for \<open>far_frame\<close> on every engine that allocates the
  grayscale array and gives black the luminance 0 and white the luminance 255.
\<close>

lemma far_frame_detected:
  assumes "1280 * 720 \<le> maxLength engine"
    and "luminance engine 255 255 255 = 255" and "luminance engine 0 0 0 = 0"
  shows "detectSquarePatterns engine (Some far_frame) 100 20 clock = Inr [far_pattern (clock 0)]"
proof -
  have a: "width far_frame * height far_frame \<le> maxLength engine"
    using assms(1) by (simp add: far_fields)
  show ?thesis
    unfolding detect_returns [OF a far_fields(1)] far_fields
      far_corners [where lum = "luminance engine", OF assms(2,3), folded far_corner_list_def] far_group
    by (simp add: far_pattern_def far_center far_size_25 calculateConfidence_def)
qed

text \<open>
  Claim C9 does not hold of the code. For the frame \<open>far_frame\<close> with the default
  threshold 100 and minimum size 20 the detector returns one pattern, with size score
  0.25, regularity score 2/7 and center score -0.71875 (the centroid \<open>(1250, 685)\<close> is far
  from the fixed point \<open>(320, 240)\<close>), and its confidence is -59/2240, below 0.
\<close>

theorem far_frame_negative_confidence:
  "detectSquarePatterns reference_engine (Some far_frame) 100 20 (\<lambda>k. 0) = Inr [far_pattern 0]
   \<and> confidence (far_pattern 0) < 0"
proof -
  have "detectSquarePatterns reference_engine (Some far_frame) 100 20 (\<lambda>k. 0) = Inr [far_pattern 0]"
    by (rule far_frame_detected)
      (simp_all add: reference_engine_def exact_luminance_white_black)
  then show ?thesis by (simp add: far_pattern_def)
qed

text \<open>The upper bound does hold: \<open>calculateConfidence\<close> caps the confidence at 1.\<close>

lemma confidence_le_1:
  assumes "detectSquarePatterns engine img threshold minSize clock = Inr ps" and "p \<in> set ps"
  shows "confidence p \<le> 1"
  using assms
  by (auto simp: detectSquarePatterns_def Let_def calculateConfidence_def enumerate_eq_zip
      split: option.splits if_splits dest!: set_zip_rightD)

end
